theory Spec2Isabelle
  imports Main "HOL-Library.Word"
begin

section \<open>Go error values\<close>

text \<open>
  The monitoring wrapper of \<^verbatim>\<open>internal/fs/wrappers/monitoring.go\<close> handles values of
  Go's interface type \<^verbatim>\<open>error\<close>. A nil interface value is \<open>None\<close>; a non-nil one is a
  tree, since an error may give access to others through \<^verbatim>\<open>Unwrap() error\<close> or
  \<^verbatim>\<open>Unwrap() []error\<close>, and both may hand out nil.

  \<^item> \<open>Errno n\<close>: the concrete type of the value is \<^verbatim>\<open>syscall.Errno\<close> (a \<^verbatim>\<open>uintptr\<close>).
  \<^item> \<open>Plain msg a\<close>: any other type with no \<^verbatim>\<open>Unwrap\<close> method.
  \<^item> \<open>Wrap msg a u\<close>: a type with \<^verbatim>\<open>Unwrap() error\<close>, which returns \<open>u\<close>.
  \<^item> \<open>Join msg a us\<close>: a type with \<^verbatim>\<open>Unwrap() []error\<close>, which returns \<open>us\<close>.

  \<open>msg\<close> is what the value's \<^verbatim>\<open>Error()\<close> method returns. \<open>a\<close> is what the type's own
  \<^verbatim>\<open>As(any) bool\<close> method does with a target of type \<^verbatim>\<open>*syscall.Errno\<close>: \<open>None\<close> when the
  type has no such method or it returns false, \<open>Some n\<close> when it stores \<open>n\<close> in the target
  and returns true. The trees are finite: an error whose chain of \<^verbatim>\<open>Unwrap\<close> calls never
  ends, on which \<^verbatim>\<open>errors.As\<close> would not return, is not a value of this type.
\<close>

type_synonym errno = "64 word"

datatype go_error =
    Errno errno
  | Plain string "errno option"
  | Wrap string "errno option" "go_error option"
  | Join string "errno option" "go_error option list"

text \<open>
  \<^verbatim>\<open>errors.As(err, &errno)\<close> for a non-nil \<open>err\<close> and a target of type \<^verbatim>\<open>*syscall.Errno\<close>:
  the loop of the standard library. At each error it first tests whether the concrete
  type is assignable to the target, then asks the error's own \<^verbatim>\<open>As\<close> method, then
  unwraps; a nil from \<^verbatim>\<open>Unwrap() error\<close> ends the search, a nil in the slice of
  \<^verbatim>\<open>Unwrap() []error\<close> is skipped, and the slice is searched depth first, in order.
  The result is the value left in the target when \<^verbatim>\<open>As\<close> returns true.
\<close>

fun errors_As :: "go_error \<Rightarrow> errno option"
  and as_joined :: "go_error option list \<Rightarrow> errno option" where
  "errors_As (Errno n) = Some n"
| "errors_As (Plain msg a) = a"
| "errors_As (Wrap msg a u) =
     (case a of Some n \<Rightarrow> Some n
      | None \<Rightarrow> (case u of None \<Rightarrow> None | Some e \<Rightarrow> errors_As e))"
| "errors_As (Join msg a us) =
     (case a of Some n \<Rightarrow> Some n | None \<Rightarrow> as_joined us)"
| "as_joined [] = None"
| "as_joined (None # us) = as_joined us"
| "as_joined (Some e # us) =
     (case errors_As e of Some n \<Rightarrow> Some n | None \<Rightarrow> as_joined us)"

text \<open>
  \<^verbatim>\<open>itoa.Uitoa\<close> and \<^verbatim>\<open>itoa.Itoa\<close> of the Go runtime: decimal digits, most significant
  first, a minus sign for a negative value.
\<close>

fun Uitoa :: "nat \<Rightarrow> string" where
  "Uitoa val =
     (if val < 10 then [char_of (48 + val)]
      else Uitoa (val div 10) @ [char_of (48 + val mod 10)])"

declare Uitoa.simps [simp del]

definition Itoa :: "int \<Rightarrow> string" where
  "Itoa val = (if val < 0 then CHR ''-'' # Uitoa (nat (- val)) else Uitoa (nat val))"

text \<open>
  \<^verbatim>\<open>func (e Errno) Error() string\<close> of package syscall. \<open>errors\<close> is that package's table
  of messages, which differs between platforms and is therefore a parameter;
  \<^verbatim>\<open>int(e)\<close> reads the \<^verbatim>\<open>uintptr\<close> as a signed 64-bit integer.
\<close>

definition Errno_Error :: "string list \<Rightarrow> errno \<Rightarrow> string" where
  "Errno_Error errors e =
     (if 0 \<le> sint e \<and> sint e < int (length errors) \<and> errors ! nat (sint e) \<noteq> ''''
      then errors ! nat (sint e)
      else ''errno '' @ Itoa (sint e))"

text \<open>The \<^verbatim>\<open>Error()\<close> method of an error value, by dynamic dispatch on its type.\<close>

fun Error :: "string list \<Rightarrow> go_error \<Rightarrow> string" where
  "Error errors (Errno n) = Errno_Error errors n"
| "Error errors (Plain msg a) = msg"
| "Error errors (Wrap msg a u) = msg"
| "Error errors (Join msg a us) = msg"

section \<open>fsErrStr\<close>

text \<open>
  \<^verbatim>\<open>fsErrStr\<close> of monitoring.go. \<open>DefaultFSError\<close> is a variable of package wrappers that
  is declared in another file; the function only calls its \<^verbatim>\<open>Error()\<close> method, so the
  value is a parameter here.
\<close>

definition fsErrStr :: "string list \<Rightarrow> go_error \<Rightarrow> go_error option \<Rightarrow> string" where
  "fsErrStr errors DefaultFSError err =
     (case err of
        None \<Rightarrow> ''''
      | Some e \<Rightarrow>
          (case errors_As e of
             Some errno \<Rightarrow> Errno_Error errors errno
           | None \<Rightarrow> Error errors DefaultFSError))"

text \<open>
  What it means for an error to wrap a \<^verbatim>\<open>syscall.Errno\<close>, in the words of the
  documentation of \<^verbatim>\<open>errors.As\<close>: the tree of an error is the error itself followed by
  the trees of the errors its \<^verbatim>\<open>Unwrap\<close> method returns, in order; an error matches the
  target when its concrete value is assignable to it or its \<^verbatim>\<open>As\<close> method accepts it.
  \<open>matching e\<close> lists, in that pre-order, the errno of every matching error in the
  tree of \<open>e\<close>.
\<close>

fun own_match :: "errno option \<Rightarrow> errno list" where
  "own_match None = []"
| "own_match (Some n) = [n]"

fun matching :: "go_error \<Rightarrow> errno list" where
  "matching (Errno n) = [n]"
| "matching (Plain msg a) = own_match a"
| "matching (Wrap msg a u) =
     own_match a @ (case u of None \<Rightarrow> [] | Some e \<Rightarrow> matching e)"
| "matching (Join msg a us) =
     own_match a @ concat (map (\<lambda>u. case u of None \<Rightarrow> [] | Some e \<Rightarrow> matching e) us)"

section \<open>The monitoring wrapper\<close>

text \<open>
  The methods of \<^verbatim>\<open>fuseutil.FileSystem\<close> that take a context and an op. The wrapper
  defines one Go method for each of them.
\<close>

datatype fs_method =
    StatFS | LookUpInode | GetInodeAttributes | SetInodeAttributes | ForgetInode
  | BatchForget | MkDir | MkNode | CreateFile | CreateLink | CreateSymlink | Rename
  | RmDir | Unlink | OpenDir | ReadDir | ReleaseDirHandle | OpenFile | ReadFile
  | WriteFile | SyncFile | FlushFile | ReleaseFileHandle | ReadSymlink | RemoveXattr
  | GetXattr | ListXattr | SetXattr | Fallocate

text \<open>
  For the wrapper's method \<open>m\<close>: the method of the wrapped file system that its body
  calls, and the string literal its body passes to \<^verbatim>\<open>recordOp\<close>. Both tables are
  transcribed from the 29 method bodies, one line each.
\<close>

fun wrapped_method :: "fs_method \<Rightarrow> fs_method" where
  "wrapped_method StatFS = StatFS"
| "wrapped_method LookUpInode = LookUpInode"
| "wrapped_method GetInodeAttributes = GetInodeAttributes"
| "wrapped_method SetInodeAttributes = SetInodeAttributes"
| "wrapped_method ForgetInode = ForgetInode"
| "wrapped_method BatchForget = BatchForget"
| "wrapped_method MkDir = MkDir"
| "wrapped_method MkNode = MkNode"
| "wrapped_method CreateFile = CreateFile"
| "wrapped_method CreateLink = CreateLink"
| "wrapped_method CreateSymlink = CreateSymlink"
| "wrapped_method Rename = Rename"
| "wrapped_method RmDir = RmDir"
| "wrapped_method Unlink = Unlink"
| "wrapped_method OpenDir = OpenDir"
| "wrapped_method ReadDir = ReadDir"
| "wrapped_method ReleaseDirHandle = ReleaseDirHandle"
| "wrapped_method OpenFile = OpenFile"
| "wrapped_method ReadFile = ReadFile"
| "wrapped_method WriteFile = WriteFile"
| "wrapped_method SyncFile = SyncFile"
| "wrapped_method FlushFile = FlushFile"
| "wrapped_method ReleaseFileHandle = ReleaseFileHandle"
| "wrapped_method ReadSymlink = ReadSymlink"
| "wrapped_method RemoveXattr = RemoveXattr"
| "wrapped_method GetXattr = GetXattr"
| "wrapped_method ListXattr = ListXattr"
| "wrapped_method SetXattr = SetXattr"
| "wrapped_method Fallocate = Fallocate"

fun method_label :: "fs_method \<Rightarrow> string" where
  "method_label StatFS = ''StatFS''"
| "method_label LookUpInode = ''LookUpInode''"
| "method_label GetInodeAttributes = ''GetInodeAttributes''"
| "method_label SetInodeAttributes = ''SetInodeAttributes''"
| "method_label ForgetInode = ''ForgetInode''"
| "method_label BatchForget = ''BatchForget''"
| "method_label MkDir = ''MkDir''"
| "method_label MkNode = ''MkNode''"
| "method_label CreateFile = ''CreateFile''"
| "method_label CreateLink = ''CreateLink''"
| "method_label CreateSymlink = ''CreateSymlink''"
| "method_label Rename = ''Rename''"
| "method_label RmDir = ''RmDir''"
| "method_label Unlink = ''Unlink''"
| "method_label OpenDir = ''OpenDir''"
| "method_label ReadDir = ''ReadDir''"
| "method_label ReleaseDirHandle = ''ReleaseDirHandle''"
| "method_label OpenFile = ''OpenFile''"
| "method_label ReadFile = ''ReadFile''"
| "method_label WriteFile = ''WriteFile''"
| "method_label SyncFile = ''SyncFile''"
| "method_label FlushFile = ''FlushFile''"
| "method_label ReleaseFileHandle = ''ReleaseFileHandle''"
| "method_label ReadSymlink = ''ReadSymlink''"
| "method_label RemoveXattr = ''RemoveXattr''"
| "method_label GetXattr = ''GetXattr''"
| "method_label ListXattr = ''ListXattr''"
| "method_label SetXattr = ''SetXattr''"
| "method_label Fallocate = ''Fallocate''"

text \<open>
  The three measures of monitoring.go and the two tag keys of package tags.
  \<open>OpsLatency us\<close> stands for the measurement \<^verbatim>\<open>opsLatency.M(float64(us) / 1000.0)\<close>:
  it carries the integer number of microseconds the float is computed from.
\<close>

datatype measurement = OpsCount int | OpsErrorCount int | OpsLatency nat

datatype tag_key = FSOp | FSError

text \<open>
  \<^verbatim>\<open>stats.RecordWithTags(ctx, mutators, measurement)\<close> belongs to the OpenCensus
  library: a parameter that updates the library's state \<open>'m\<close> and may return an error.
  The mutators are all \<^verbatim>\<open>tag.Upsert(key, value)\<close>, given as pairs.
\<close>

type_synonym ('ctx, 'm) recorder =
  "'ctx \<Rightarrow> (tag_key \<times> string) list \<Rightarrow> measurement \<Rightarrow> 'm \<Rightarrow> go_error option \<times> 'm"

text \<open>
  What the monitoring layer can change: the state of the metrics library, the standard
  output (\<^verbatim>\<open>fmt.Printf\<close>) and the error log (\<^verbatim>\<open>logger.Errorf\<close>).
\<close>

record 'm monitor =
  metrics :: 'm
  stdout :: "string list"
  errorlog :: "string list"

text \<open>
  One guarded recording: \<^verbatim>\<open>if err := stats.RecordWithTags(...); err != nil { report }\<close>.
  \<open>report\<close> adds the formatted message (\<^verbatim>\<open>%v\<close> prints \<^verbatim>\<open>err.Error()\<close>) to one of the
  two outputs.
\<close>

definition record_or_report ::
  "('ctx, 'm) recorder \<Rightarrow> string list \<Rightarrow> 'ctx \<Rightarrow> (tag_key \<times> string) list \<Rightarrow> measurement \<Rightarrow>
   (string \<Rightarrow> 'm monitor \<Rightarrow> 'm monitor) \<Rightarrow> 'm monitor \<Rightarrow> 'm monitor" where
  "record_or_report RecordWithTags errors ctx tags ms report mon =
     (case RecordWithTags ctx tags ms (metrics mon) of
        (None, m') \<Rightarrow> mon\<lparr>metrics := m'\<rparr>
      | (Some err, m') \<Rightarrow> report (Error errors err) (mon\<lparr>metrics := m'\<rparr>))"

definition Printf :: "string \<Rightarrow> string \<Rightarrow> 'm monitor \<Rightarrow> 'm monitor" where
  "Printf prefix v mon = mon\<lparr>stdout := stdout mon @ [prefix @ v]\<rparr>"

definition Errorf :: "string \<Rightarrow> string \<Rightarrow> 'm monitor \<Rightarrow> 'm monitor" where
  "Errorf prefix v mon = mon\<lparr>errorlog := errorlog mon @ [prefix @ v]\<rparr>"

text \<open>
  \<^verbatim>\<open>recordOp(ctx, method, start, fsErr)\<close>. \<open>since\<close> is the duration in nanoseconds that
  \<^verbatim>\<open>time.Since(start)\<close> returns when the latency is computed; \<^verbatim>\<open>Microseconds()\<close> divides
  it by 1000.
\<close>

definition recordOp ::
  "('ctx, 'm) recorder \<Rightarrow> string list \<Rightarrow> go_error \<Rightarrow> 'ctx \<Rightarrow> string \<Rightarrow> nat \<Rightarrow>
   go_error option \<Rightarrow> 'm monitor \<Rightarrow> 'm monitor" where
  "recordOp RecordWithTags errors DefaultFSError ctx method since fsErr mon =
     (let mon1 = record_or_report RecordWithTags errors ctx [(FSOp, method)] (OpsCount 1)
                   (Printf ''Cannot record file system op: '') mon;
          mon2 = (if fsErr \<noteq> None
                  then record_or_report RecordWithTags errors ctx
                         [(FSOp, method), (FSError, fsErrStr errors DefaultFSError fsErr)]
                         (OpsErrorCount 1)
                         (Errorf ''Cannot record error count of the file system failed operations: '')
                         mon1
                  else mon1)
      in record_or_report RecordWithTags errors ctx [(FSOp, method)] (OpsLatency (since div 1000))
           (Errorf ''Cannot record file system operation latency: '') mon2)"

text \<open>
  The wrapped \<^verbatim>\<open>fuseutil.FileSystem\<close> is an interface value: a parameter. A method
  receives the context and a pointer to the op; it may write to the op and to its own
  state \<open>'fs\<close>, and it returns an error. The types of contexts and ops belong to other
  packages and the wrapper never looks inside them, so they are type variables.
\<close>

type_synonym ('ctx, 'op, 'fs) file_system =
  "fs_method \<Rightarrow> 'ctx \<Rightarrow> 'op \<Rightarrow> 'fs \<Rightarrow> go_error option \<times> 'op \<times> 'fs"

text \<open>
  The state around a call: the wrapped file system's state, the list of the calls made
  to its methods so far (method and arguments, oldest first), and the monitoring
  layer's state.
\<close>

record ('ctx, 'op, 'fs, 'm) world =
  fsys :: 'fs
  calls :: "(fs_method \<times> 'ctx \<times> 'op) list"
  monitor :: "'m monitor"

text \<open>A call \<^verbatim>\<open>fs.wrapped.M(ctx, op)\<close>: it is written to the list of calls and run.\<close>

definition invoke ::
  "('ctx, 'op, 'fs) file_system \<Rightarrow> fs_method \<Rightarrow> 'ctx \<Rightarrow> 'op \<Rightarrow> ('ctx, 'op, 'fs, 'm) world \<Rightarrow>
   go_error option \<times> 'op \<times> ('ctx, 'op, 'fs, 'm) world" where
  "invoke wrapped m ctx op w =
     (case wrapped m ctx op (fsys w) of
        (err, op', fs') \<Rightarrow> (err, op', w\<lparr>fsys := fs', calls := calls w @ [(m, ctx, op)]\<rparr>))"

text \<open>
  The body shared by the 29 methods of \<^verbatim>\<open>*monitoring\<close>, for the method \<open>m\<close>:
  \<^verbatim>\<open>
  startTime := time.Now()
  err := fs.wrapped.M(ctx, op)
  recordOp(ctx, "M", startTime, err)
  return err
  \<close>
  The result is the returned error, the op as the call left it, and the new state.
\<close>

definition monitoring ::
  "('ctx, 'm) recorder \<Rightarrow> string list \<Rightarrow> go_error \<Rightarrow> ('ctx, 'op, 'fs) file_system \<Rightarrow>
   fs_method \<Rightarrow> 'ctx \<Rightarrow> 'op \<Rightarrow> nat \<Rightarrow> ('ctx, 'op, 'fs, 'm) world \<Rightarrow>
   go_error option \<times> 'op \<times> ('ctx, 'op, 'fs, 'm) world" where
  "monitoring RecordWithTags errors DefaultFSError wrapped m ctx op since w =
     (case invoke wrapped (wrapped_method m) ctx op w of
        (err, op', w') \<Rightarrow>
          (err, op',
           w'\<lparr>monitor := recordOp RecordWithTags errors DefaultFSError ctx (method_label m)
                            since err (monitor w')\<rparr>))"

section \<open>The read cache: data model\<close>

text \<open>
  The read cache (Cache Store, Cache Entry, Download Job, Eviction Policy, Cache
  Manager, Cache Handle) is exercised by \<^verbatim>\<open>tools/integration_tests/read_cache\<close>; its
  implementation is not part of the sources verified here. The definitions of this and
  the next section are written from the specification, section by section, and
  each says so.
\<close>

type_synonym byte = "8 word"

text \<open>
  Modelled from the spec: the Object Identity of section 3, whose implementation is
  missing: bucket name, object path, generation number and metageneration number.
\<close>

record object_identity =
  bucket :: string
  object_path :: string
  generation :: int
  metageneration :: int

text \<open>
  Modelled from the spec: the status of a Cache Entry (section 3) and the states of a
  Download Job (sections 3 and 4.2: none started yet, running, or one of the terminal
  states Complete, Failed, Cancelled); the implementation of both is missing.
\<close>

datatype entry_status = Pending | Downloading | Complete | Invalidated | Evicting

datatype job_state = NoJob | Running | JobComplete | JobFailed | JobCancelled

text \<open>
  Modelled from the spec: the Cache Entry of section 3, whose implementation is missing.
  It owns a reference to its backing file (here the file's name in the cache directory),
  the \<open>downloadedBytes\<close> watermark, a status, the active-reader count, the last-access
  timestamp and the total expected size; \<open>job\<close> is the state of its Download Job.
\<close>

record cache_entry =
  identity :: object_identity
  backing_file :: string
  downloadedBytes :: nat
  status :: entry_status
  job :: job_state
  readers :: nat
  lastAccess :: nat
  totalSize :: nat

section \<open>The read cache: Download Job and read path\<close>

text \<open>
  Modelled from the spec: \<^verbatim>\<open>readRange(id, generation, offset, length)\<close> of the object
  store client (section 6), whose implementation is missing, for an object that exists
  at the expected generation with the contents \<open>object\<close>: the bytes of the range, cut
  at the end of the object.
\<close>

definition readRange :: "byte list \<Rightarrow> nat \<Rightarrow> nat \<Rightarrow> byte list" where
  "readRange object offset len = take len (drop offset object)"

text \<open>
  Modelled from the spec: the Cache Store's positioned read and write of a backing
  file (sections 2 and 5), whose implementation is missing. A write past the end of
  the file fills the gap with zeros, as a regular file does.
\<close>

definition read_at :: "byte list \<Rightarrow> nat \<Rightarrow> nat \<Rightarrow> byte list" where
  "read_at content offset len = take len (drop offset content)"

definition write_at :: "byte list \<Rightarrow> nat \<Rightarrow> byte list \<Rightarrow> byte list" where
  "write_at content offset data =
     take offset (content @ replicate (offset - length content) 0) @ data
       @ drop (offset + length data) content"

text \<open>
  Modelled from the spec: what one turn of the Download Job's loop (section 4.2), whose
  implementation is missing, can come to: the next chunk was fetched and written
  durably; the network stream failed; or the write to the backing file failed (the
  "disk write failure" of section 4.3), leaving \<open>junk\<close> behind where the chunk should
  have gone.
\<close>

datatype job_outcome = ChunkDurable | NetworkError | WriteError "byte list"

text \<open>
  Modelled from the spec: one turn of the Download Job of section 4.2, whose
  implementation is missing, on an entry and the contents of its backing file. The
  Job "streams the object's bytes sequentially from offset 0, writing to the backing
  file and advancing \<open>downloadedBytes\<close> after each chunk write is durable", it "never
  downloads past the object's declared size", and an error "marks the Job Failed and
  records the byte offset reached"; at "watermark == total size" it is Complete.
\<close>

definition job_step ::
  "nat \<Rightarrow> byte list \<Rightarrow> job_outcome \<Rightarrow> cache_entry \<times> byte list \<Rightarrow> cache_entry \<times> byte list" where
  "job_step chunk_size object outcome ef =
     (case ef of (e, content) \<Rightarrow>
        if job e \<noteq> Running then (e, content)
        else (case outcome of
            NetworkError \<Rightarrow> (e\<lparr>job := JobFailed\<rparr>, content)
          | WriteError junk \<Rightarrow> (e\<lparr>job := JobFailed\<rparr>, write_at content (downloadedBytes e) junk)
          | ChunkDurable \<Rightarrow>
              (let chunk = take (min chunk_size (totalSize e - downloadedBytes e))
                             (drop (downloadedBytes e) object);
                   reached = downloadedBytes e + length chunk
               in (if reached = totalSize e
                   then e\<lparr>downloadedBytes := reached, status := Complete, job := JobComplete\<rparr>
                   else e\<lparr>downloadedBytes := reached\<rparr>,
                   write_at content (downloadedBytes e) chunk))))"

text \<open>
  Modelled from the spec: the bounded wait of section 4.3, step 4, whose implementation
  is missing. \<open>progress\<close> lists what the Job does before the timeout. The reader wakes
  when the watermark has reached \<open>target\<close>, when the Job is no longer running, or at
  the timeout.
\<close>

fun await ::
  "nat \<Rightarrow> byte list \<Rightarrow> nat \<Rightarrow> job_outcome list \<Rightarrow> cache_entry \<times> byte list \<Rightarrow>
   cache_entry \<times> byte list" where
  "await chunk_size object target [] ef = ef"
| "await chunk_size object target (outcome # progress) ef =
     (if target \<le> downloadedBytes (fst ef) \<or> job (fst ef) \<noteq> Running then ef
      else await chunk_size object target progress (job_step chunk_size object outcome ef))"

text \<open>
  Modelled from the spec: the part of the mount configuration (section 6) that the read
  path uses, whose implementation is missing: the global switch, the chunk size and the
  number of non-contiguous reads after which a handle counts as random.
\<close>

record config =
  enabled :: bool
  chunkSize :: nat
  randomThreshold :: nat

text \<open>
  Modelled from the spec: the Cache Manager's view of one object path, whose
  implementation is missing: the entry the index holds for the path, if any, and the
  contents of that entry's backing file.
\<close>

record object_cache =
  entry :: "cache_entry option"
  file_content :: "byte list"

text \<open>
  Modelled from the spec: the name of a backing file, "named deterministically from the
  object identity and generation" (section 6); the implementation is missing and the
  spec fixes no format, so this is one such function.
\<close>

definition file_name :: "object_identity \<Rightarrow> string" where
  "file_name oid = bucket oid @ ''/'' @ object_path oid @ ''#'' @ Itoa (generation oid)"

text \<open>
  Modelled from the spec: the entry that \<open>resolve\<close> creates (sections 3 and 4.1), whose
  implementation is missing: nothing downloaded, no Job, no reader, the status Pending
  and the total size from the object's metadata.
\<close>

definition new_entry :: "object_identity \<Rightarrow> nat \<Rightarrow> cache_entry" where
  "new_entry oid osize =
     \<lparr>identity = oid, backing_file = file_name oid, downloadedBytes = 0, status = Pending,
      job = NoJob, readers = 0, lastAccess = 0, totalSize = osize\<rparr>"

text \<open>
  Modelled from the spec: an entry is "for one (object key, generation) pair"
  (section 2), so it serves an identity with the same bucket, path and generation; the
  implementation is missing.
\<close>

definition same_object :: "cache_entry \<Rightarrow> object_identity \<Rightarrow> bool" where
  "same_object e oid \<longleftrightarrow>
     bucket (identity e) = bucket oid \<and> object_path (identity e) = object_path oid
     \<and> generation (identity e) = generation oid"

text \<open>
  Modelled from the spec: \<open>resolve\<close> of the Cache Manager (section 4.1), whose
  implementation is missing: it "creates if absent, replaces if generation changed";
  when caching is disabled, or when "the Cache Store cannot create a backing file", it
  returns the "no-cache" sentinel, here \<open>None\<close>. \<open>can_create\<close> says whether the Cache
  Store can create a file at this moment; \<open>osize\<close> is the object's size from its
  metadata. An entry that was replaced stays behind as Invalidated when no new one
  could be made.
\<close>

definition resolve ::
  "config \<Rightarrow> object_identity \<Rightarrow> nat \<Rightarrow> bool \<Rightarrow> object_cache \<Rightarrow>
   cache_entry option \<times> object_cache" where
  "resolve cfg oid osize can_create c =
     (if \<not> enabled cfg then (None, c)
      else (case entry c of
          Some e \<Rightarrow>
            if same_object e oid \<and> status e \<noteq> Invalidated then (Some e, c)
            else if can_create
              then (Some (new_entry oid osize), \<lparr>entry = Some (new_entry oid osize), file_content = []\<rparr>)
              else (None, c\<lparr>entry := Some (e\<lparr>status := Invalidated\<rparr>)\<rparr>)
        | None \<Rightarrow>
            if can_create
              then (Some (new_entry oid osize), \<lparr>entry = Some (new_entry oid osize), file_content = []\<rparr>)
              else (None, c)))"

text \<open>
  Modelled from the spec: the state of a Cache Handle (section 4.3), whose
  implementation is missing: the end of its last read, the number of non-contiguous
  reads seen, and whether it has given up on the cache.
\<close>

record handle =
  lastEnd :: "nat option"
  nonContiguous :: nat
  bypass :: bool

text \<open>
  Modelled from the spec: a handle right after the file was opened (section 3, "one per
  open file descriptor"), whose implementation is missing.
\<close>

definition fresh_handle :: handle where
  "fresh_handle = \<lparr>lastEnd = None, nonContiguous = 0, bypass = False\<rparr>"

text \<open>
  Modelled from the spec: the sequential access pattern of section 4.3, step 2
  ("\<open>offset == 0\<close> or \<open>offset\<close> equals the handle's last read's end"), and the
  bookkeeping of step 5 ("Randomness is declared once a configured number of
  non-contiguous reads on the same handle is observed; the handle may then disable
  cache participation for its remaining lifetime"); the implementation is missing.
\<close>

definition sequential :: "handle \<Rightarrow> nat \<Rightarrow> bool" where
  "sequential h offset \<longleftrightarrow> offset = 0 \<or> lastEnd h = Some offset"

definition note_access :: "config \<Rightarrow> handle \<Rightarrow> nat \<Rightarrow> nat \<Rightarrow> handle" where
  "note_access cfg h offset len =
     (let n = (if sequential h offset then nonContiguous h else nonContiguous h + 1)
      in \<lparr>lastEnd = Some (offset + len), nonContiguous = n,
          bypass = (bypass h \<or> randomThreshold cfg \<le> n)\<rparr>)"

text \<open>
  Modelled from the spec: the start of a Download Job (section 4.3, step 2), whose
  implementation is missing: the Job runs and the entry's status is Downloading.
\<close>

definition start_job :: "cache_entry \<Rightarrow> cache_entry" where
  "start_job e = e\<lparr>status := Downloading, job := Running\<rparr>"

text \<open>
  Modelled from the spec: the fallback of section 4.3, step 4, whose implementation is
  missing: "a direct range read from the object store for the missing tail"; what lies
  below the watermark comes from the backing file.
\<close>

definition read_with_fallback :: "byte list \<Rightarrow> nat \<Rightarrow> byte list \<Rightarrow> nat \<Rightarrow> nat \<Rightarrow> byte list" where
  "read_with_fallback content watermark object offset len =
     (if offset < watermark
      then read_at content offset (watermark - offset)
             @ readRange object watermark (offset + len - watermark)
      else readRange object offset len)"

text \<open>
  Modelled from the spec: \<open>read(offset, length)\<close> of a Cache Handle, the decision
  procedure of section 4.3, whose implementation is missing. \<open>object\<close> is the contents
  of the object at the handle's generation, \<open>now\<close> the time of the read, \<open>can_create\<close>
  the Cache Store's answer should \<open>resolve\<close> need a new file, and \<open>progress\<close> what the
  Job does while the read waits. A handle that has given up on the cache reads
  directly. Otherwise:
  \<^enum> the entry is resolved; the "no-cache" sentinel means a direct read;
  \<^enum> a sequential read starts the Job if none was started;
  \<^enum> a range within \<open>downloadedBytes\<close> is read from the backing file;
  \<^enum> else a sequential read waits while the Job runs, then reads from the backing
    file if the watermark covers the range and falls back for the missing tail if not;
  \<^enum> else the read is random and goes to the object store.
\<close>

definition handle_read ::
  "config \<Rightarrow> object_identity \<Rightarrow> byte list \<Rightarrow> nat \<Rightarrow> bool \<Rightarrow> job_outcome list \<Rightarrow>
   handle \<Rightarrow> nat \<Rightarrow> nat \<Rightarrow> object_cache \<Rightarrow> byte list \<times> handle \<times> object_cache" where
  "handle_read cfg oid object now can_create progress h offset len c =
     (let h' = note_access cfg h offset len in
      if bypass h then (readRange object offset len, h', c)
      else (case resolve cfg oid (length object) can_create c of
          (None, c1) \<Rightarrow> (readRange object offset len, h', c1)
        | (Some e, c1) \<Rightarrow>
            (let e1 = (if sequential h offset \<and> job e = NoJob then start_job e else e)
                        \<lparr>lastAccess := now\<rparr>
             in if offset + len \<le> downloadedBytes e1
                then (read_at (file_content c1) offset len, h', c1\<lparr>entry := Some e1\<rparr>)
                else if sequential h offset
                then (case await (chunkSize cfg) object (offset + len) progress (e1, file_content c1) of
                        (e2, content2) \<Rightarrow>
                          (if offset + len \<le> downloadedBytes e2
                           then read_at content2 offset len
                           else read_with_fallback content2 (downloadedBytes e2) object offset len,
                           h', \<lparr>entry = Some e2, file_content = content2\<rparr>))
                else (readRange object offset len, h', c1\<lparr>entry := Some e1\<rparr>))))"

text \<open>
  Modelled from the spec: what happens around one object (section 2, control and data
  flow), whose implementation is missing: a handle reads a range, or the Download Job
  takes a turn between two reads.
\<close>

datatype event =
    Read nat nat nat nat bool "job_outcome list"
  | JobTurn job_outcome

text \<open>
  Modelled from the spec: the handles open on the object, by number, each "one per open
  file descriptor" (section 3), and the Cache Manager's view of the object; the cold
  state has fresh handles and no entry. The implementation is missing.
\<close>

record system =
  handles :: "nat \<Rightarrow> handle"
  cached :: object_cache

definition cold :: system where
  "cold = \<lparr>handles = (\<lambda>_. fresh_handle), cached = \<lparr>entry = None, file_content = []\<rparr>\<rparr>"

text \<open>
  Modelled from the spec: a turn of the Download Job of the entry, if there is one
  (section 4.2); the implementation is missing.
\<close>

definition job_turn :: "config \<Rightarrow> byte list \<Rightarrow> job_outcome \<Rightarrow> object_cache \<Rightarrow> object_cache" where
  "job_turn cfg object outcome c =
     (case entry c of
        None \<Rightarrow> c
      | Some e \<Rightarrow>
          (case job_step (chunkSize cfg) object outcome (e, file_content c) of
             (e', content') \<Rightarrow> \<lparr>entry = Some e', file_content = content'\<rparr>))"

text \<open>
  Modelled from the spec: the bytes returned by the reads of a sequence of events, in
  order, each read going through \<open>handle_read\<close> (section 4.3), whose implementation is
  missing; \<open>Read k offset len now can_create progress\<close> is a read through handle number
  \<open>k\<close>.
\<close>

fun run :: "config \<Rightarrow> object_identity \<Rightarrow> byte list \<Rightarrow> event list \<Rightarrow> system \<Rightarrow> byte list list" where
  "run cfg oid object [] s = []"
| "run cfg oid object (Read k offset len now can_create progress # events) s =
     (case handle_read cfg oid object now can_create progress (handles s k) offset len (cached s) of
        (bytes, h', c') \<Rightarrow>
          bytes # run cfg oid object events (s\<lparr>handles := (handles s)(k := h'), cached := c'\<rparr>))"
| "run cfg oid object (JobTurn outcome # events) s =
     run cfg oid object events (s\<lparr>cached := job_turn cfg object outcome (cached s)\<rparr>)"

text \<open>
  What direct range reads of the object store return for the reads of a sequence of
  events: the reference the cached reads are compared with.
\<close>

fun direct_reads :: "byte list \<Rightarrow> event list \<Rightarrow> byte list list" where
  "direct_reads object [] = []"
| "direct_reads object (Read k offset len now can_create progress # events) =
     readRange object offset len # direct_reads object events"
| "direct_reads object (JobTurn outcome # events) = direct_reads object events"

text \<open>
  Modelled from the spec: the state after one event, the same transition that \<open>run\<close>
  makes, and the states a sequence of events passes through, the first state included;
  the implementation is missing. These are the moments at which a reader or the Job
  can look at the entry (section 5: one task per read, one Job per entry).
\<close>

fun step :: "config \<Rightarrow> object_identity \<Rightarrow> byte list \<Rightarrow> event \<Rightarrow> system \<Rightarrow> system" where
  "step cfg oid object (Read k offset len now can_create progress) s =
     (case handle_read cfg oid object now can_create progress (handles s k) offset len (cached s) of
        (bytes, h', c') \<Rightarrow> s\<lparr>handles := (handles s)(k := h'), cached := c'\<rparr>)"
| "step cfg oid object (JobTurn outcome) s =
     s\<lparr>cached := job_turn cfg object outcome (cached s)\<rparr>"


text \<open>
  Modelled from the spec: the watermark a reader observes for the object (glossary:
  "the highest contiguous byte offset a Download Job has durably written for a Cache
  Entry"): the entry's \<open>downloadedBytes\<close>, and nothing while there is no entry.
\<close>

definition watermark :: "object_cache \<Rightarrow> nat" where
  "watermark c = (case entry c of None \<Rightarrow> 0 | Some e \<Rightarrow> downloadedBytes e)"

section \<open>The read cache: invariants\<close>

text \<open>
  An entry and its backing file are consistent with an object when the watermark does
  not exceed the object's size and the file holds the object's bytes below it.
\<close>

definition consistent :: "byte list \<Rightarrow> cache_entry \<times> byte list \<Rightarrow> bool" where
  "consistent object ef \<longleftrightarrow>
     downloadedBytes (fst ef) \<le> length object
     \<and> take (downloadedBytes (fst ef)) (snd ef) = take (downloadedBytes (fst ef)) object"

definition cache_ok :: "byte list \<Rightarrow> object_cache \<Rightarrow> bool" where
  "cache_ok object c =
     (case entry c of None \<Rightarrow> True | Some e \<Rightarrow> consistent object (e, file_content c))"



section \<open>Sample states\<close>

text \<open>
  A small object, its identity, a configuration with chunks of two bytes, and states
  and events used to run the definitions: a system whose entry for the object is
  partially downloaded, with junk in the backing file above the watermark; a system
  whose entry is left over from the generation before; a mixed sequence of reads and
  turns of the Job; and a sequence that downloads the whole object.
\<close>

definition sample_object :: "byte list" where
  "sample_object = [1, 2, 3, 4, 5, 6]"

definition sample_identity :: "string \<Rightarrow> object_identity" where
  "sample_identity p = \<lparr>bucket = ''bucket'', object_path = p, generation = 7, metageneration = 1\<rparr>"

definition sample_config :: config where
  "sample_config = \<lparr>enabled = True, chunkSize = 2, randomThreshold = 2\<rparr>"

definition warm :: system where
  "warm =
     \<lparr>handles = (\<lambda>_. fresh_handle),
      cached = \<lparr>entry = Some ((new_entry (sample_identity ''foo'') 6)
                                \<lparr>downloadedBytes := 2, status := Downloading, job := Running\<rparr>),
                file_content = [1, 2, 77]\<rparr>\<rparr>"

definition sample_events :: "event list" where
  "sample_events =
     [Read 0 0 2 10 True [], Read 0 2 2 11 True [ChunkDurable], JobTurn (WriteError [9]),
      Read 0 4 2 12 True [ChunkDurable], Read 1 3 5 13 True []]"



text \<open>
  A wrapped file system and a metrics library to run the wrapper on: contexts are
  strings, an op is a list of numbers, the file system's state is a counter.
  \<^verbatim>\<open>ReadFile\<close> writes the counter to the op and succeeds; every other method fails with
  errno 38 and leaves the op alone. The metrics library keeps every record and never
  fails.
\<close>

definition sample_fs :: "(string, nat list, nat) file_system" where
  "sample_fs m ctx op s =
     (if m = ReadFile then (None, op @ [s], s + 1) else (Some (Errno 38), op, s))"

definition sample_recorder ::
  "(string, ((tag_key \<times> string) list \<times> measurement) list) recorder" where
  "sample_recorder ctx tags ms m = (None, m @ [(tags, ms)])"

definition sample_world ::
  "(string, nat list, nat, ((tag_key \<times> string) list \<times> measurement) list) world" where
  "sample_world =
     \<lparr>fsys = 4, calls = [], monitor = \<lparr>metrics = [], stdout = [], errorlog = []\<rparr>\<rparr>"

section \<open>Properties of fsErrStr\<close>

lemma case_append_first:
  "(case xs @ ys of [] \<Rightarrow> None | n # ns \<Rightarrow> Some n) =
     (case xs of [] \<Rightarrow> (case ys of [] \<Rightarrow> None | n # ns \<Rightarrow> Some n) | n # ns \<Rightarrow> Some n)"
  by (cases xs) simp_all

text \<open>The loop of \<^verbatim>\<open>errors.As\<close> finds the first matching error of the tree.\<close>

lemma errors_As_first_match:
  "errors_As e = (case matching e of [] \<Rightarrow> None | n # ns \<Rightarrow> Some n)"
  "as_joined us = (case concat (map (\<lambda>u. case u of None \<Rightarrow> [] | Some e \<Rightarrow> matching e) us) of
                     [] \<Rightarrow> None | n # ns \<Rightarrow> Some n)"
proof (induction e and us rule: errors_As_as_joined.induct)
  case (2 msg a)
  then show ?case by (cases a) simp_all
next
  case (3 msg a u)
  then show ?case by (cases a; cases u) simp_all
next
  case (4 msg a us)
  then show ?case by (cases a) simp_all
next
  case (7 e us)
  then show ?case
    by (cases "matching e") (simp_all add: case_append_first del: concat_eq_Nil_conv)
qed simp_all

lemma Errno_Error_nonempty: "Errno_Error errors e \<noteq> ''''"
  by (simp add: Errno_Error_def)

text \<open>
  Claim C10. \<^verbatim>\<open>fsErrStr\<close> is a total function from errors to strings with few values:
  it returns the empty string exactly for the nil error; for a non-nil error whose tree
  holds an error matching \<^verbatim>\<open>syscall.Errno\<close> it returns the message of the first such
  errno; every other non-nil error gets the message of \<open>DefaultFSError\<close>, so the results
  for errors without an errno form a set of one element. \<open>DefaultFSError\<close> is declared
  outside this file; the first part needs its message to be non-empty, which holds for
  every \<^verbatim>\<open>syscall.Errno\<close> by \<open>Errno_Error_nonempty\<close>.
\<close>

theorem fsErrStr_low_cardinality:
  assumes "Error errors DefaultFSError \<noteq> ''''"
  shows "(fsErrStr errors DefaultFSError err = '''' \<longleftrightarrow> err = None)
       \<and> (\<forall>e n ns. err = Some e \<and> matching e = n # ns \<longrightarrow>
             fsErrStr errors DefaultFSError err = Errno_Error errors n)
       \<and> (\<forall>e. err = Some e \<and> matching e = [] \<longrightarrow>
             fsErrStr errors DefaultFSError err = Error errors DefaultFSError)
       \<and> {fsErrStr errors DefaultFSError (Some e) | e. matching e = []}
           = {Error errors DefaultFSError}"
proof -
  have nil: "fsErrStr errors DefaultFSError None = ''''"
    by (simp add: fsErrStr_def)
  have hit: "fsErrStr errors DefaultFSError (Some e) = Errno_Error errors n"
    if "matching e = n # ns" for e n ns
    using that by (simp add: fsErrStr_def errors_As_first_match(1))
  have miss: "fsErrStr errors DefaultFSError (Some e) = Error errors DefaultFSError"
    if "matching e = []" for e
    using that by (simp add: fsErrStr_def errors_As_first_match(1))
  have nonempty: "fsErrStr errors DefaultFSError (Some e) \<noteq> ''''" for e
    using assms Errno_Error_nonempty [of errors]
    by (cases "matching e") (simp_all add: hit miss)
  have plain: "matching (Plain '''' None) = []"
    by simp
  have one: "{fsErrStr errors DefaultFSError (Some e) | e. matching e = []}
                  = {Error errors DefaultFSError}"
  proof
    show "{fsErrStr errors DefaultFSError (Some e) | e. matching e = []}
          \<subseteq> {Error errors DefaultFSError}"
      using miss by auto
    have "\<exists>e. Error errors DefaultFSError = fsErrStr errors DefaultFSError (Some e)
               \<and> matching e = []"
      using miss [OF plain] plain by metis
    then show "{Error errors DefaultFSError}
          \<subseteq> {fsErrStr errors DefaultFSError (Some e) | e. matching e = []}"
      by simp
  qed
  show ?thesis
    using nil hit miss nonempty one by (cases err) simp_all
qed

text \<open>
  The theorem at a table that starts like the one of Linux, with \<open>DefaultFSError\<close> the
  errno 5: an error wrapping errno 2 gives that errno's message, an error with no errno
  gives the message of errno 5.
\<close>

theorem fsErrStr_low_cardinality_witness:
  "Error ['''', ''operation not permitted'', ''no such file or directory'', '''', '''',
          ''input/output error''] (Errno 5) \<noteq> ''''
   \<and> fsErrStr ['''', ''operation not permitted'', ''no such file or directory'', '''', '''',
          ''input/output error''] (Errno 5)
        (Some (Wrap ''open /mnt/foo'' None (Some (Errno 2)))) = ''no such file or directory''
   \<and> fsErrStr ['''', ''operation not permitted'', ''no such file or directory'', '''', '''',
          ''input/output error''] (Errno 5)
        (Some (Plain ''unexpected EOF'' None)) = ''input/output error''"
proof -
  let ?T = "['''', ''operation not permitted'', ''no such file or directory'', '''', '''',
             ''input/output error'']"
  have h: "Error ?T (Errno 5) \<noteq> ''''"
    by (simp add: Errno_Error_def)
  have "fsErrStr ?T (Errno 5) (Some (Wrap ''open /mnt/foo'' None (Some (Errno 2))))
        = Errno_Error ?T 2"
    using fsErrStr_low_cardinality [OF h, of "Some (Wrap ''open /mnt/foo'' None (Some (Errno 2)))"]
    by simp
  moreover have "fsErrStr ?T (Errno 5) (Some (Plain ''unexpected EOF'' None))
        = Error ?T (Errno 5)"
    using fsErrStr_low_cardinality [OF h, of "Some (Plain ''unexpected EOF'' None)"]
    by simp
  ultimately show ?thesis
    using h by (simp add: Errno_Error_def)
qed

section \<open>Properties of the monitoring wrapper\<close>

lemma wrapped_method_same: "wrapped_method m = m"
  by (cases m) simp_all

lemma record_or_report_quiet:
  assumes "fst (RecordWithTags ctx tags ms (metrics mon)) = None"
  shows "stdout (record_or_report RecordWithTags errors ctx tags ms report mon) = stdout mon
       \<and> errorlog (record_or_report RecordWithTags errors ctx tags ms report mon) = errorlog mon"
  using assms
  by (cases "RecordWithTags ctx tags ms (metrics mon)") (simp add: record_or_report_def)

lemma recordOp_quiet:
  assumes "\<forall>tags ms m. fst (RecordWithTags ctx tags ms m) = None"
  shows "stdout (recordOp RecordWithTags errors DefaultFSError ctx method since fsErr mon) = stdout mon
       \<and> errorlog (recordOp RecordWithTags errors DefaultFSError ctx method since fsErr mon) = errorlog mon"
  using assms by (simp add: recordOp_def Let_def record_or_report_quiet)

text \<open>
  Claim C9. The monitoring wrapper is transparent. For every method \<open>m\<close>, context, op
  and state: the error it returns, the op it leaves and the wrapped file system's state
  are those of one call of the wrapped file system's method \<open>m\<close> with the same context
  and op; that call is the only one added to the list of calls; the one other change
  is to the monitoring state, by \<^verbatim>\<open>recordOp\<close> with the method's label and the returned
  error; and when the metrics library reports no error, that change is to the metrics
  alone: nothing is printed or logged.
\<close>

theorem monitoring_transparent:
  "(case monitoring RecordWithTags errors DefaultFSError wrapped m ctx op since w of
      (err, op', w') \<Rightarrow>
        (err, op', fsys w') = wrapped m ctx op (fsys w)
        \<and> calls w' = calls w @ [(m, ctx, op)]
        \<and> monitor w' = recordOp RecordWithTags errors DefaultFSError ctx (method_label m)
                           since err (monitor w)
        \<and> ((\<forall>tags ms x. fst (RecordWithTags ctx tags ms x) = None) \<longrightarrow>
             stdout (monitor w') = stdout (monitor w)
             \<and> errorlog (monitor w') = errorlog (monitor w)))"
  by (simp add: monitoring_def invoke_def wrapped_method_same recordOp_quiet
           split: prod.splits)


text \<open>
  The theorem on the sample file system: \<^verbatim>\<open>ReadFile\<close> through the wrapper returns what
  the file system returns, the call is listed once, and the metrics gain the count and
  the latency of 2500 microseconds.
\<close>

theorem monitoring_transparent_witness:
  "(\<forall>tags ms x. fst (sample_recorder ''ctx'' tags ms x) = None)
   \<and> monitoring sample_recorder [] (Errno 5) sample_fs ReadFile ''ctx'' [1] 2500999 sample_world
     = (None, [1, 4],
        \<lparr>fsys = 5, calls = [(ReadFile, ''ctx'', [1])],
         monitor = \<lparr>metrics = [([(FSOp, ''ReadFile'')], OpsCount 1),
                               ([(FSOp, ''ReadFile'')], OpsLatency 2500)],
                    stdout = [], errorlog = []\<rparr>\<rparr>)"
proof -
  have quiet: "\<forall>tags ms x. fst (sample_recorder ''ctx'' tags ms x) = None"
    by (simp add: sample_recorder_def)
  obtain err op' w' where m:
    "monitoring sample_recorder [] (Errno 5) sample_fs ReadFile ''ctx'' [1] 2500999 sample_world
     = (err, op', w')"
    by (cases "monitoring sample_recorder [] (Errno 5) sample_fs ReadFile ''ctx'' [1] 2500999
                 sample_world")
  from monitoring_transparent
         [where RecordWithTags = sample_recorder and errors = "[]" and DefaultFSError = "Errno 5"
            and wrapped = sample_fs and m = ReadFile and ctx = "''ctx''" and op = "[1]"
            and since = 2500999 and w = sample_world]
       m quiet
  have r: "(err, op', fsys w') = sample_fs ReadFile ''ctx'' [1] (fsys sample_world)"
    and c: "calls w' = calls sample_world @ [(ReadFile, ''ctx'', [1])]"
    and mo: "monitor w' = recordOp sample_recorder [] (Errno 5) ''ctx'' (method_label ReadFile)
                            2500999 err (monitor sample_world)"
    by simp_all
  from r have e: "err = None" and o: "op' = [1, 4]" and f: "fsys w' = 5"
    by (simp_all add: sample_fs_def sample_world_def)
  from mo e have mo': "monitor w' = \<lparr>metrics = [([(FSOp, ''ReadFile'')], OpsCount 1),
                               ([(FSOp, ''ReadFile'')], OpsLatency 2500)],
                    stdout = [], errorlog = []\<rparr>"
    by (simp add: recordOp_def record_or_report_def sample_recorder_def sample_world_def Let_def)
  have "w' = \<lparr>fsys = 5, calls = [(ReadFile, ''ctx'', [1])],
         monitor = \<lparr>metrics = [([(FSOp, ''ReadFile'')], OpsCount 1),
                               ([(FSOp, ''ReadFile'')], OpsLatency 2500)],
                    stdout = [], errorlog = []\<rparr>\<rparr>"
    using f c mo' by (cases w') (simp add: sample_world_def)
  with m e o quiet show ?thesis by simp
qed

section \<open>Properties of the read path\<close>

lemma write_at_below:
  "offset \<le> length content \<Longrightarrow> take offset (write_at content offset data) = take offset content"
  by (simp add: write_at_def)

lemma write_at_through:
  "offset \<le> length content \<Longrightarrow>
   take (offset + length data) (write_at content offset data) = take offset content @ data"
  by (simp add: write_at_def)

lemma consistent_length:
  assumes "consistent object (e, content)"
  shows "downloadedBytes e \<le> length content"
proof -
  from assms have "length (take (downloadedBytes e) content)
      = length (take (downloadedBytes e) object)"
    by (simp add: consistent_def)
  moreover from assms have "downloadedBytes e \<le> length object"
    by (simp add: consistent_def)
  ultimately show ?thesis by (simp add: min_def split: if_splits)
qed

lemma take_length_take: "take (length (take j ys)) ys = take j ys"
  by (metis append_eq_conv_conj append_take_drop_id)

lemma take_chunk:
  "take w object @ take j (drop w object)
   = take (w + length (take j (drop w object))) object"
  by (simp only: take_add take_length_take)

lemma job_step_consistent:
  assumes "consistent object ef"
  shows "consistent object (job_step chunk_size object outcome ef)"
proof (cases ef)
  case (Pair e content)
  with assms have c: "consistent object (e, content)" by simp
  then have len: "downloadedBytes e \<le> length content" by (rule consistent_length)
  from c have wm: "downloadedBytes e \<le> length object"
    and eq: "take (downloadedBytes e) content = take (downloadedBytes e) object"
    by (simp_all add: consistent_def)
  show ?thesis
  proof (cases "job e = Running")
    case False
    with c Pair show ?thesis by (simp add: job_step_def)
  next
    case True
    show ?thesis
    proof (cases outcome)
      case ChunkDurable
      define chunk where "chunk = take (min chunk_size (totalSize e - downloadedBytes e))
                      (drop (downloadedBytes e) object)"
      define reached where "reached = downloadedBytes e + length chunk"
      define e' where "e' = (if reached = totalSize e
                   then e\<lparr>downloadedBytes := reached, status := Complete, job := JobComplete\<rparr>
                   else e\<lparr>downloadedBytes := reached\<rparr>)"
      have step: "job_step chunk_size object outcome ef
                  = (e', write_at content (downloadedBytes e) chunk)"
        unfolding e'_def reached_def chunk_def
        using True Pair ChunkDurable by (simp add: job_step_def Let_def)
      have w': "downloadedBytes e' = reached"
        by (simp add: e'_def)
      have bound: "reached \<le> length object"
        using wm by (simp add: reached_def chunk_def)
      have "take reached (write_at content (downloadedBytes e) chunk)
            = take (downloadedBytes e) object @ chunk"
        unfolding reached_def using write_at_through [OF len, of chunk] eq by simp
      also have "\<dots> = take reached object"
        unfolding reached_def chunk_def by (rule take_chunk)
      finally show ?thesis
        using bound by (simp add: step consistent_def w')
    next
      case NetworkError
      with c True Pair show ?thesis by (simp add: job_step_def consistent_def)
    next
      case (WriteError junk)
      with True Pair wm eq write_at_below [OF len, of junk] show ?thesis
        by (simp add: job_step_def consistent_def)
    qed
  qed
qed

lemma await_consistent:
  "consistent object ef \<Longrightarrow> consistent object (await chunk_size object target progress ef)"
  by (induction progress arbitrary: ef) (simp_all add: job_step_consistent)

lemma range_of_prefix:
  assumes "take w xs = take w ys" "offset + len \<le> w"
  shows "take len (drop offset xs) = take len (drop offset ys)"
proof -
  have "take len (drop offset zs) = take len (drop offset (take w zs))" for zs :: "'a list"
    using assms(2) by (simp add: drop_take)
  with assms(1) show ?thesis by metis
qed

lemma cache_hit_correct:
  assumes "consistent object (e, content)" "offset + len \<le> downloadedBytes e"
  shows "read_at content offset len = readRange object offset len"
  using assms range_of_prefix [of "downloadedBytes e" content object offset len]
  by (simp add: consistent_def read_at_def readRange_def)

lemma fallback_correct:
  assumes "consistent object (e, content)" "\<not> offset + len \<le> downloadedBytes e"
  shows "read_with_fallback content (downloadedBytes e) object offset len
         = readRange object offset len"
proof (cases "offset < downloadedBytes e")
  case False
  then show ?thesis by (simp add: read_with_fallback_def)
next
  case True
  let ?w = "downloadedBytes e"
  from assms(1) have eq: "take ?w content = take ?w object"
    by (simp add: consistent_def)
  have "read_at content offset (?w - offset) = take (?w - offset) (drop offset object)"
    using range_of_prefix [OF eq, of offset "?w - offset"] True
    by (simp add: read_at_def)
  moreover have "take len (drop offset object)
      = take (?w - offset) (drop offset object)
        @ take (offset + len - ?w) (drop ?w object)"
  proof -
    have "len = (?w - offset) + (offset + len - ?w)"
      using True assms(2) by simp
    then have "take len (drop offset object)
        = take ((?w - offset) + (offset + len - ?w)) (drop offset object)"
      by simp
    also have "\<dots> = take (?w - offset) (drop offset object)
        @ take (offset + len - ?w) (drop (?w - offset) (drop offset object))"
      by (rule take_add)
    finally show ?thesis using True by simp
  qed
  ultimately show ?thesis
    using True by (simp add: read_with_fallback_def readRange_def)
qed

lemma resolve_ok:
  assumes "cache_ok object c" "resolve cfg oid osize can_create c = (r, c1)"
  shows "cache_ok object c1 \<and> (\<forall>e. r = Some e \<longrightarrow> entry c1 = Some e)"
  using assms
  by (auto simp: resolve_def cache_ok_def consistent_def new_entry_def
           split: if_splits option.splits)

lemma handle_read_correct:
  assumes ok: "cache_ok object c"
    and rd: "handle_read cfg oid object now can_create progress h offset len c = (bytes, h', c')"
  shows "bytes = readRange object offset len \<and> cache_ok object c'"
proof (cases "bypass h")
  case True
  with ok rd show ?thesis by (auto simp: handle_read_def Let_def)
next
  case False
  obtain r c1 where res: "resolve cfg oid (length object) can_create c = (r, c1)"
    by (cases "resolve cfg oid (length object) can_create c")
  from resolve_ok [OF ok res] have ok1: "cache_ok object c1"
    and ent: "\<And>e. r = Some e \<Longrightarrow> entry c1 = Some e" by auto
  show ?thesis
  proof (cases r)
    case None
    with False res rd ok1 show ?thesis by (auto simp: handle_read_def Let_def)
  next
    case (Some e)
    define e1 where "e1 = (if sequential h offset \<and> job e = NoJob then start_job e else e)
                        \<lparr>lastAccess := now\<rparr>"
    from ent [OF Some] ok1 have "consistent object (e, file_content c1)"
      by (simp add: cache_ok_def)
    then have c1: "consistent object (e1, file_content c1)"
      by (simp add: consistent_def e1_def start_job_def)
    show ?thesis
    proof (cases "offset + len \<le> downloadedBytes e1")
      case True
      with False res Some rd have "bytes = read_at (file_content c1) offset len"
        and "c' = c1\<lparr>entry := Some e1\<rparr>"
        by (auto simp: handle_read_def Let_def e1_def)
      with cache_hit_correct [OF c1 True] c1 show ?thesis
        by (simp add: cache_ok_def)
    next
      case miss: False
      show ?thesis
      proof (cases "sequential h offset")
        case nonseq: False
        with False res Some rd miss have "bytes = readRange object offset len"
          and "c' = c1\<lparr>entry := Some e1\<rparr>"
          by (auto simp: handle_read_def Let_def e1_def)
        with c1 show ?thesis by (simp add: cache_ok_def)
      next
        case seq: True
        obtain e2 content2 where aw:
          "await (chunkSize cfg) object (offset + len) progress (e1, file_content c1) = (e2, content2)"
          by (cases "await (chunkSize cfg) object (offset + len) progress (e1, file_content c1)")
        from await_consistent [OF c1, of "chunkSize cfg" "offset + len" progress] aw
        have c2: "consistent object (e2, content2)" by simp
        from False res Some rd miss seq aw
        have b: "bytes = (if offset + len \<le> downloadedBytes e2
                           then read_at content2 offset len
                           else read_with_fallback content2 (downloadedBytes e2) object offset len)"
          and c': "c' = \<lparr>entry = Some e2, file_content = content2\<rparr>"
          by (auto simp: handle_read_def Let_def e1_def)
        from b cache_hit_correct [OF c2] fallback_correct [OF c2]
        have "bytes = readRange object offset len" by (cases "offset + len \<le> downloadedBytes e2") simp_all
        with c2 c' show ?thesis by (simp add: cache_ok_def)
      qed
    qed
  qed
qed

lemma job_turn_ok: "cache_ok object c \<Longrightarrow> cache_ok object (job_turn cfg object outcome c)"
proof (cases "entry c")
  case None
  assume "cache_ok object c"
  with None show ?thesis by (simp add: job_turn_def)
next
  case (Some e)
  assume "cache_ok object c"
  with Some have "consistent object (e, file_content c)" by (simp add: cache_ok_def)
  from job_step_consistent [OF this, of "chunkSize cfg" outcome] Some show ?thesis
    by (cases "job_step (chunkSize cfg) object outcome (e, file_content c)")
       (simp add: job_turn_def cache_ok_def)
qed

lemma run_correct:
  "cache_ok object (cached s) \<Longrightarrow> run cfg oid object events s = direct_reads object events"
proof (induction events arbitrary: s)
  case Nil
  then show ?case by simp
next
  case (Cons ev events)
  show ?case
  proof (cases ev)
    case (Read k offset len now can_create progress)
    obtain bytes h' c' where rd:
      "handle_read cfg oid object now can_create progress (handles s k) offset len (cached s)
       = (bytes, h', c')"
      by (cases "handle_read cfg oid object now can_create progress (handles s k) offset len (cached s)")
    from handle_read_correct [OF Cons.prems rd]
    have "bytes = readRange object offset len" and "cache_ok object c'" by simp_all
    with Cons.IH [of "s\<lparr>handles := (handles s)(k := h'), cached := c'\<rparr>"] Read rd
    show ?thesis by simp
  next
    case (JobTurn outcome)
    with Cons.IH [of "s\<lparr>cached := job_turn cfg object outcome (cached s)\<rparr>"]
      job_turn_ok [OF Cons.prems, of cfg outcome]
    show ?thesis by simp
  qed
qed

lemma cold_ok: "cache_ok object (cached cold)"
  by (simp add: cold_def cache_ok_def)

text \<open>
  Claim C1. For every sequence of reads through Cache Handles on one object whose
  generation stays the same, with turns of the Download Job in between and during the
  waits, each read returns the bytes that a direct range read of the object store
  returns for the same offset and length. This holds from the cold cache, which reaches
  every partially downloaded and every complete state by turns of the Job, and from
  every state whose backing file holds the object's bytes below the watermark.
\<close>

theorem cached_reads_equal_direct_reads:
  "run cfg oid object events cold = direct_reads object events
   \<and> (cache_ok object (cached s) \<longrightarrow> run cfg oid object events s = direct_reads object events)"
  using run_correct [OF cold_ok] run_correct by blast


text \<open>
  The theorem on a partially downloaded entry with junk above the watermark: a hit, a
  wait that ends in a hit, a failed write of the Job, a fallback for the missing tail,
  and a read through a second handle that crosses the end of the object.
\<close>

theorem cached_reads_equal_direct_reads_witness:
  "cache_ok sample_object (cached warm)
   \<and> run sample_config (sample_identity ''foo'') sample_object sample_events warm
       = [[1, 2], [3, 4], [5, 6], [4, 5, 6]]"
proof -
  have ok: "cache_ok sample_object (cached warm)"
    by (simp add: cache_ok_def consistent_def warm_def new_entry_def sample_object_def)
  have "run sample_config (sample_identity ''foo'') sample_object sample_events warm
        = direct_reads sample_object sample_events"
    using cached_reads_equal_direct_reads
            [of sample_config "sample_identity ''foo''" sample_object sample_events warm] ok
    by blast
  also have "\<dots> = [[1, 2], [3, 4], [5, 6], [4, 5, 6]]"
    by (simp add: sample_events_def sample_object_def readRange_def)
  finally show ?thesis using ok by simp
qed

section \<open>Properties of the watermark\<close>






















lemma run_follows_step:
  "run cfg oid object (ev # events) s
   = (case ev of
        Read k offset len now can_create progress \<Rightarrow>
          [fst (handle_read cfg oid object now can_create progress (handles s k) offset len (cached s))]
      | JobTurn outcome \<Rightarrow> [])
     @ run cfg oid object events (step cfg oid object ev s)"
  by (cases ev) (simp_all split: prod.splits)


end
